theory Spec2Isabelle
  imports Complex_Main
begin

section \<open>Python values\<close>

text \<open>
  The class \<open>Vacancy\<close> of \<open>src/models/Vacancy.py\<close> stores whatever objects its
  constructor is given and checks their runtime types afterwards, so the fields of the
  model are dynamically typed values.

  A Python \<open>str\<close> is a sequence of Unicode code points. The literals of the source are
  Russian; they are written here as lists of code points, the ASCII ones through
  \<open>ascii\<close>.
\<close>

type_synonym pystr = "nat list"

definition ascii :: "string \<Rightarrow> pystr" where
  "ascii s = map of_char s"

text \<open>
  A \<open>float\<close> is an IEEE double. A finite double is a rational number below \<open>2 ^ 1024\<close>
  in absolute value; the type \<open>finite_double\<close> holds the rationals of that range, which
  is more than the doubles, so a statement about all of its elements covers all finite
  doubles. \<open>double_value\<close> gives the rational of a finite double, \<open>to_double\<close> the
  finite double of a rational of the range. \<open>Finite d\<close> is a finite double other than
  \<open>-0.0\<close>, \<open>NegZero\<close> is \<open>-0.0\<close>.
\<close>

typedef finite_double = "{q :: rat. \<bar>q\<bar> < 2 ^ 1024}"
  morphisms double_value to_double
  by (rule exI [of _ 0]) simp

datatype pyfloat = Finite finite_double | NegZero | PosInf | NegInf | NaN

text \<open>
  \<open>PNone\<close> is \<open>None\<close>; \<open>bool\<close> is its own class, a subclass of \<open>int\<close>; \<open>PInt\<close> is an
  unbounded \<open>int\<close>; \<open>PObj a\<close> is an instance of any other class (not a subclass of
  \<open>int\<close>, \<open>float\<close> or \<open>str\<close>), with the default identity comparison, named by
  its address.
\<close>

datatype pyval = PNone | PBool bool | PInt int | PFloat pyfloat | PStr pystr | PObj nat

datatype pyclass = C_int | C_float | C_str

text \<open>\<open>isinstance(x, C)\<close> for the three classes the source tests.\<close>

fun isinstance :: "pyval \<Rightarrow> pyclass \<Rightarrow> bool" where
  "isinstance (PBool b) C_int = True"
| "isinstance (PInt i) C_int = True"
| "isinstance (PFloat f) C_float = True"
| "isinstance (PStr s) C_str = True"
| "isinstance _ _ = False"

text \<open>
  The exceptions. \<open>NotModelled\<close> is not a Python exception: it marks the operations
  on values whose result the model does not define (the \<open>repr\<close> of a float, the text
  of a foreign object, \<open>int\<close> of a string). No record that has passed
  \<open>validate_data\<close> reaches it.
\<close>

datatype error = ValueError pystr | OverflowError pystr | TypeError | KeyError pystr | NotModelled

subsection \<open>Numbers and comparison\<close>

text \<open>
  The value of a number: a rational, an infinity, or not a number. Python compares
  \<open>int\<close> with \<open>float\<close> by exact value, so all numeric comparisons are comparisons
  of these values; every comparison with NaN is false.
\<close>

datatype numval = Rat rat | PlusInf | MinusInf | Undefined

fun float_value :: "pyfloat \<Rightarrow> numval" where
  "float_value (Finite d) = Rat (double_value d)"
| "float_value NegZero = Rat 0"
| "float_value PosInf = PlusInf"
| "float_value NegInf = MinusInf"
| "float_value NaN = Undefined"

fun number_value :: "pyval \<Rightarrow> numval option" where
  "number_value (PBool b) = Some (Rat (if b then 1 else 0))"
| "number_value (PInt i) = Some (Rat (of_int i))"
| "number_value (PFloat f) = Some (float_value f)"
| "number_value _ = None"

fun nv_eq :: "numval \<Rightarrow> numval \<Rightarrow> bool" where
  "nv_eq (Rat x) (Rat y) = (x = y)"
| "nv_eq PlusInf PlusInf = True"
| "nv_eq MinusInf MinusInf = True"
| "nv_eq _ _ = False"

fun nv_less :: "numval \<Rightarrow> numval \<Rightarrow> bool" where
  "nv_less (Rat x) (Rat y) = (x < y)"
| "nv_less (Rat x) PlusInf = True"
| "nv_less MinusInf (Rat y) = True"
| "nv_less MinusInf PlusInf = True"
| "nv_less _ _ = False"

definition nv_le :: "numval \<Rightarrow> numval \<Rightarrow> bool" where
  "nv_le x y = (nv_less x y \<or> nv_eq x y)"

text \<open>Strings are ordered lexicographically by code point.\<close>

fun str_less :: "pystr \<Rightarrow> pystr \<Rightarrow> bool" where
  "str_less s [] = False"
| "str_less [] (y # t) = True"
| "str_less (x # s) (y # t) = (x < y \<or> (x = y \<and> str_less s t))"

text \<open>
  \<open>a == b\<close>: numbers by value, strings by content, \<open>None\<close> with itself, foreign
  objects by identity; values of unrelated classes are unequal. \<open>==\<close> never raises.
\<close>

fun py_eq :: "pyval \<Rightarrow> pyval \<Rightarrow> bool" where
  "py_eq PNone PNone = True"
| "py_eq (PStr s) (PStr t) = (s = t)"
| "py_eq (PObj p) (PObj q) = (p = q)"
| "py_eq a b =
     (case (number_value a, number_value b) of
        (Some x, Some y) \<Rightarrow> nv_eq x y
      | _ \<Rightarrow> False)"

text \<open>\<open>a != b\<close> is the negation of \<open>a == b\<close> for all these classes.\<close>

definition py_ne :: "pyval \<Rightarrow> pyval \<Rightarrow> bool" where
  "py_ne a b = (\<not> py_eq a b)"

text \<open>
  \<open>a < b\<close>, \<open>a <= b\<close>, \<open>a > b\<close>, \<open>a >= b\<close>: defined between numbers and between
  strings; any other pair raises \<open>TypeError\<close>.
\<close>

fun py_lt :: "pyval \<Rightarrow> pyval \<Rightarrow> error + bool" where
  "py_lt (PStr s) (PStr t) = Inr (str_less s t)"
| "py_lt a b =
     (case (number_value a, number_value b) of
        (Some x, Some y) \<Rightarrow> Inr (nv_less x y)
      | _ \<Rightarrow> Inl TypeError)"

fun py_le :: "pyval \<Rightarrow> pyval \<Rightarrow> error + bool" where
  "py_le (PStr s) (PStr t) = Inr (str_less s t \<or> s = t)"
| "py_le a b =
     (case (number_value a, number_value b) of
        (Some x, Some y) \<Rightarrow> Inr (nv_le x y)
      | _ \<Rightarrow> Inl TypeError)"

fun py_gt :: "pyval \<Rightarrow> pyval \<Rightarrow> error + bool" where
  "py_gt (PStr s) (PStr t) = Inr (str_less t s)"
| "py_gt a b =
     (case (number_value a, number_value b) of
        (Some x, Some y) \<Rightarrow> Inr (nv_less y x)
      | _ \<Rightarrow> Inl TypeError)"

fun py_ge :: "pyval \<Rightarrow> pyval \<Rightarrow> error + bool" where
  "py_ge (PStr s) (PStr t) = Inr (str_less t s \<or> s = t)"
| "py_ge a b =
     (case (number_value a, number_value b) of
        (Some x, Some y) \<Rightarrow> Inr (nv_le y x)
      | _ \<Rightarrow> Inl TypeError)"

subsection \<open>Conversion to int and to text\<close>

text \<open>Decimal digits of a natural number, most significant first.\<close>

fun show_nat :: "nat \<Rightarrow> pystr" where
  "show_nat n = (if n < 10 then [48 + n] else show_nat (n div 10) @ [48 + n mod 10])"

declare show_nat.simps [simp del]

text \<open>The decimal text of an \<open>int\<close>; 45 is the minus sign.\<close>

definition show_int :: "int \<Rightarrow> pystr" where
  "show_int i = (if i < 0 then 45 # show_nat (nat (- i)) else show_nat (nat i))"

text \<open>
  \<open>str(i)\<close> and \<open>format(i, "")\<close> for an \<open>int\<close>, which is what an f-string calls:
  CPython (3.11, and the releases the limit was added to) raises \<open>ValueError\<close> when the
  text would have more digits, the sign not counted, than \<open>sys.get_int_max_str_digits()\<close>,
  which is 4300 unless the program or the environment changes it; the source does not.
\<close>

definition int_max_str_digits :: nat where
  "int_max_str_digits = 4300"

definition int_limit_msg :: pystr where
  "int_limit_msg =
     ascii (''Exceeds the limit (4300 digits) for integer string conversion; '' @
            ''use sys.set_int_max_str_digits() to increase the limit'')"

definition str_int :: "int \<Rightarrow> error + pystr" where
  "str_int i =
     (if int_max_str_digits < length (show_nat (nat \<bar>i\<bar>)) then Inl (ValueError int_limit_msg)
      else Inr (show_int i))"

text \<open>
  \<open>int(x)\<close>: a bool as 0 or 1, an int as it is, a finite float cut toward zero; an infinity
  raises \<open>OverflowError\<close>, NaN raises \<open>ValueError\<close>, \<open>None\<close> and foreign objects raise
  \<open>TypeError\<close>.
\<close>

definition trunc :: "rat \<Rightarrow> int" where
  "trunc q = (if 0 \<le> q then \<lfloor>q\<rfloor> else \<lceil>q\<rceil>)"

fun py_int :: "pyval \<Rightarrow> error + int" where
  "py_int (PBool b) = Inr (if b then 1 else 0)"
| "py_int (PInt i) = Inr i"
| "py_int (PFloat (Finite d)) = Inr (trunc (double_value d))"
| "py_int (PFloat NegZero) = Inr 0"
| "py_int (PFloat PosInf) = Inl (OverflowError (ascii ''cannot convert float infinity to integer''))"
| "py_int (PFloat NegInf) = Inl (OverflowError (ascii ''cannot convert float infinity to integer''))"
| "py_int (PFloat NaN) = Inl (ValueError (ascii ''cannot convert float NaN to integer''))"
| "py_int (PStr s) = Inl NotModelled"
| "py_int PNone = Inl TypeError"
| "py_int (PObj a) = Inl TypeError"

text \<open>The text an f-string puts for \<open>{x}\<close>, which is \<open>str(x)\<close> for these classes.\<close>

fun py_format :: "pyval \<Rightarrow> error + pystr" where
  "py_format PNone = Inr (ascii ''None'')"
| "py_format (PBool b) = Inr (if b then ascii ''True'' else ascii ''False'')"
| "py_format (PInt i) = str_int i"
| "py_format (PStr s) = Inr s"
| "py_format (PFloat f) = Inl NotModelled"
| "py_format (PObj a) = Inl NotModelled"

section \<open>The class Vacancy\<close>

record Vacancy =
  id_num :: pyval
  vacancy_name :: pyval
  company_name :: pyval
  description :: pyval
  salary_from :: pyval
  salary_to :: pyval
  salary_currency :: pyval
  area :: pyval
  url :: pyval

subsection \<open>The literals of the source\<close>

text \<open>The default currency, "no data".\<close>

definition no_data :: pystr where
  "no_data = [1053, 1077, 1090, 32, 1076, 1072, 1085, 1085, 1099, 1093]"

text \<open>The salary phrase of a record without salary, "no information".\<close>

definition no_information :: pystr where
  "no_information =
     [1048, 1085, 1092, 1086, 1088, 1084, 1072, 1094, 1080, 1080, 32, 1085, 1077, 1090]"

text \<open>"From " and "To ", each with its trailing blank.\<close>

definition from_word :: pystr where
  "from_word = [1054, 1090, 32]"

definition to_word :: pystr where
  "to_word = [1044, 1086, 32]"

text \<open>
  The labels of the seven lines of \<open>__str__\<close>: "ID: ", "Vacancy name: ",
  "Company name: ", "Description: ", "Salary: ", "Location: ", "URL: ".
\<close>

definition label_id :: pystr where
  "label_id = ascii ''ID: ''"

definition label_vacancy_name :: pystr where
  "label_vacancy_name =
     [1053, 1072, 1079, 1074, 1072, 1085, 1080, 1077, 32, 1074, 1072, 1082, 1072, 1085,
      1089, 1080, 1080, 58, 32]"

definition label_company_name :: pystr where
  "label_company_name =
     [1053, 1072, 1079, 1074, 1072, 1085, 1080, 1077, 32, 1082, 1086, 1084, 1087, 1072,
      1085, 1080, 1080, 58, 32]"

definition label_description :: pystr where
  "label_description = [1054, 1087, 1080, 1089, 1072, 1085, 1080, 1077, 58, 32]"

definition label_salary :: pystr where
  "label_salary = [1047, 1072, 1088, 1087, 1083, 1072, 1090, 1072, 58, 32]"

definition label_area :: pystr where
  "label_area =
     [1052, 1077, 1089, 1090, 1086, 1087, 1086, 1083, 1086, 1078, 1077, 1085, 1080, 1077,
      58, 32]"

definition label_url :: pystr where
  "label_url = ascii ''URL: ''"

text \<open>
  The messages of the nine checks of \<open>_validate_data\<close>, in the order of the source:
  "ID must be an integer", "Vacancy name must be a string", "Company name must be a
  string", "Vacancy description must be a string", "Salary 'from' must be a number
  (integer or decimal)", "Salary 'to' must be a number (integer or decimal) or None",
  "Salary currency must be a string", "Location must be a string", "URL must be a
  string".
\<close>

definition msg_id_num :: pystr where
  "msg_id_num =
     [73, 68, 32, 1076, 1086, 1083, 1078, 1085, 1086, 32, 1073, 1099, 1090, 1100, 32,
      1094, 1077, 1083, 1099, 1084, 32, 1095, 1080, 1089, 1083, 1086, 1084]"

definition msg_vacancy_name :: pystr where
  "msg_vacancy_name =
     [1053, 1072, 1079, 1074, 1072, 1085, 1080, 1077, 32, 1074, 1072, 1082, 1072, 1085,
      1089, 1080, 1080, 32, 1076, 1086, 1083, 1078, 1085, 1086, 32, 1073, 1099, 1090,
      1100, 32, 1089, 1090, 1088, 1086, 1082, 1086, 1081]"

definition msg_company_name :: pystr where
  "msg_company_name =
     [1053, 1072, 1079, 1074, 1072, 1085, 1080, 1077, 32, 1082, 1086, 1084, 1087, 1072,
      1085, 1080, 1080, 32, 1076, 1086, 1083, 1078, 1085, 1086, 32, 1073, 1099, 1090,
      1100, 32, 1089, 1090, 1088, 1086, 1082, 1086, 1081]"

definition msg_description :: pystr where
  "msg_description =
     [1054, 1087, 1080, 1089, 1072, 1085, 1080, 1077, 32, 1074, 1072, 1082, 1072, 1085,
      1089, 1080, 1080, 32, 1076, 1086, 1083, 1078, 1085, 1086, 32, 1073, 1099, 1090,
      1100, 32, 1089, 1090, 1088, 1086, 1082, 1086, 1081]"

definition msg_salary_from :: pystr where
  "msg_salary_from =
     [1047, 1072, 1088, 1087, 1083, 1072, 1090, 1072, 32, 39, 102, 114, 111, 109, 39, 32,
      1076, 1086, 1083, 1078, 1085, 1072, 32, 1073, 1099, 1090, 1100, 32, 1095, 1080,
      1089, 1083, 1086, 1084, 32, 40, 1094, 1077, 1083, 1099, 1084, 32, 1080, 1083, 1080,
      32, 1076, 1077, 1089, 1103, 1090, 1080, 1095, 1085, 1099, 1084, 41]"

definition msg_salary_to :: pystr where
  "msg_salary_to =
     [1047, 1072, 1088, 1087, 1083, 1072, 1090, 1072, 32, 39, 116, 111, 39, 32, 1076,
      1086, 1083, 1078, 1085, 1072, 32, 1073, 1099, 1090, 1100, 32, 1095, 1080, 1089,
      1083, 1086, 1084, 32, 40, 1094, 1077, 1083, 1099, 1084, 32, 1080, 1083, 1080, 32,
      1076, 1077, 1089, 1103, 1090, 1080, 1095, 1085, 1099, 1084, 41, 32, 1080, 1083,
      1080, 32, 78, 111, 110, 101]"

definition msg_salary_currency :: pystr where
  "msg_salary_currency =
     [1042, 1072, 1083, 1102, 1090, 1072, 32, 1079, 1072, 1088, 1087, 1083, 1072, 1090,
      1099, 32, 1076, 1086, 1083, 1078, 1085, 1072, 32, 1073, 1099, 1090, 1100, 32, 1089,
      1090, 1088, 1086, 1082, 1086, 1081]"

definition msg_area :: pystr where
  "msg_area =
     [1052, 1077, 1089, 1090, 1086, 1087, 1086, 1083, 1086, 1078, 1077, 1085, 1080, 1077,
      32, 1076, 1086, 1083, 1078, 1085, 1086, 32, 1073, 1099, 1090, 1100, 32, 1089, 1090,
      1088, 1086, 1082, 1086, 1081]"

definition msg_url :: pystr where
  "msg_url =
     [85, 82, 76, 32, 1076, 1086, 1083, 1078, 1077, 1085, 32, 1073, 1099, 1090, 1100, 32,
      1089, 1090, 1088, 1086, 1082, 1086, 1081]"

subsection \<open>Validation and construction\<close>

text \<open>
  \<open>_validate_data\<close>: nine \<open>isinstance\<close> checks in the order of the source, each
  raising \<open>ValueError\<close> with its own message; \<open>Inr ()\<close> when all pass.
\<close>

definition validate_data :: "Vacancy \<Rightarrow> error + unit" where
  "validate_data v =
     (if \<not> isinstance (id_num v) C_int then Inl (ValueError msg_id_num)
      else if \<not> isinstance (vacancy_name v) C_str then Inl (ValueError msg_vacancy_name)
      else if \<not> isinstance (company_name v) C_str then Inl (ValueError msg_company_name)
      else if \<not> isinstance (description v) C_str then Inl (ValueError msg_description)
      else if \<not> (isinstance (salary_from v) C_int \<or> isinstance (salary_from v) C_float)
        then Inl (ValueError msg_salary_from)
      else if \<not> (isinstance (salary_to v) C_int \<or> isinstance (salary_to v) C_float)
        then Inl (ValueError msg_salary_to)
      else if \<not> isinstance (salary_currency v) C_str
        then Inl (ValueError msg_salary_currency)
      else if \<not> isinstance (area v) C_str then Inl (ValueError msg_area)
      else if \<not> isinstance (url v) C_str then Inl (ValueError msg_url)
      else Inr ())"

text \<open>
  \<open>__init__\<close>: the nine assignments, with \<open>None\<close> replaced in the three salary
  fields, then validation. An exception of the validation leaves no object.
\<close>

definition init_Vacancy ::
  "pyval \<Rightarrow> pyval \<Rightarrow> pyval \<Rightarrow> pyval \<Rightarrow> pyval \<Rightarrow> pyval \<Rightarrow> pyval \<Rightarrow> pyval \<Rightarrow> pyval
     \<Rightarrow> error + Vacancy" where
  "init_Vacancy id_num' vacancy_name' company_name' description' salary_from' salary_to'
       salary_currency' area' url' =
     (let self = \<lparr>id_num = id_num',
                 vacancy_name = vacancy_name',
                 company_name = company_name',
                 description = description',
                 salary_from = (if salary_from' \<noteq> PNone then salary_from' else PInt 0),
                 salary_to = (if salary_to' \<noteq> PNone then salary_to' else PInt 0),
                 salary_currency =
                   (if salary_currency' \<noteq> PNone then salary_currency' else PStr no_data),
                 area = area',
                 url = url'\<rparr>
      in case validate_data self of Inl e \<Rightarrow> Inl e | Inr u \<Rightarrow> Inr self)"

subsection \<open>Rendering\<close>

text \<open>
  The first statement of \<open>__str__\<close> computes the local \<open>salary_range\<close> from the
  locals \<open>from_part\<close> and \<open>to_part\<close>, each a conditional expression around an
  f-string; \<open>from_part\<close> is evaluated first, so its exception wins.
\<close>

definition from_part :: "Vacancy \<Rightarrow> error + pystr" where
  "from_part self =
     (if py_ne (salary_from self) (PInt 0)
      then (case py_int (salary_from self) of
              Inl e \<Rightarrow> Inl e
            | Inr i \<Rightarrow>
                (case str_int i of
                   Inl e \<Rightarrow> Inl e
                 | Inr s \<Rightarrow> Inr (from_word @ s @ ascii '' '')))
      else Inr [])"

definition to_part :: "Vacancy \<Rightarrow> error + pystr" where
  "to_part self =
     (if py_ne (salary_to self) (PInt 0)
      then (case py_int (salary_to self) of
              Inl e \<Rightarrow> Inl e
            | Inr i \<Rightarrow>
                (case str_int i of
                   Inl e \<Rightarrow> Inl e
                 | Inr s \<Rightarrow> Inr (to_word @ s @ ascii '' '')))
      else Inr [])"

definition salary_range :: "Vacancy \<Rightarrow> error + pystr" where
  "salary_range self =
     (if py_eq (salary_from self) (PInt 0) \<and> py_eq (salary_to self) (PInt 0)
        then Inr no_information
      else
        case from_part self of
          Inl e \<Rightarrow> Inl e
        | Inr fp \<Rightarrow>
            (case to_part self of
               Inl e \<Rightarrow> Inl e
             | Inr tp \<Rightarrow>
                 (case py_format (salary_currency self) of
                    Inl e \<Rightarrow> Inl e
                  | Inr cur \<Rightarrow> Inr (fp @ tp @ cur))))"

text \<open>The \<open>return\<close> of \<open>__str__\<close>: seven lines, joined by line feeds (code point 10).\<close>

definition str_Vacancy :: "Vacancy \<Rightarrow> error + pystr" where
  "str_Vacancy self =
     (case salary_range self of Inl e \<Rightarrow> Inl e | Inr sr \<Rightarrow>
      case py_format (id_num self) of Inl e \<Rightarrow> Inl e | Inr i \<Rightarrow>
      case py_format (vacancy_name self) of Inl e \<Rightarrow> Inl e | Inr n \<Rightarrow>
      case py_format (company_name self) of Inl e \<Rightarrow> Inl e | Inr c \<Rightarrow>
      case py_format (description self) of Inl e \<Rightarrow> Inl e | Inr d \<Rightarrow>
      case py_format (area self) of Inl e \<Rightarrow> Inl e | Inr a \<Rightarrow>
      case py_format (url self) of Inl e \<Rightarrow> Inl e | Inr u \<Rightarrow>
        Inr (label_id @ i @ [10] @
             label_vacancy_name @ n @ [10] @
             label_company_name @ c @ [10] @
             label_description @ d @ [10] @
             label_salary @ sr @ [10] @
             label_area @ a @ [10] @
             label_url @ u))"

subsection \<open>Dictionary export\<close>

text \<open>
  \<open>to_dict\<close>: a dict keeps the order of insertion, so it is a list of pairs;
  \<open>dict_get\<close> is \<open>d[k]\<close>.
\<close>

definition to_dict :: "Vacancy \<Rightarrow> (pystr \<times> pyval) list" where
  "to_dict self =
     [(ascii ''id_num'', id_num self),
      (ascii ''vacancy_name'', vacancy_name self),
      (ascii ''company_name'', company_name self),
      (ascii ''description'', description self),
      (ascii ''salary_from'', salary_from self),
      (ascii ''salary_to'', salary_to self),
      (ascii ''salary_currency'', salary_currency self),
      (ascii ''area'', area self),
      (ascii ''url'', url self)]"

definition dict_get :: "(pystr \<times> pyval) list \<Rightarrow> pystr \<Rightarrow> error + pyval" where
  "dict_get d k = (case map_of d k of None \<Rightarrow> Inl (KeyError k) | Some x \<Rightarrow> Inr x)"

text \<open>
  Construction from an exported dict, key by key:
  \<open>Vacancy(d["id_num"], d["vacancy_name"], ..., d["url"])\<close>. A missing key raises
  \<open>KeyError\<close> before the constructor is entered.
\<close>

definition from_dict :: "(pystr \<times> pyval) list \<Rightarrow> error + Vacancy" where
  "from_dict d =
     (case dict_get d (ascii ''id_num'') of Inl e \<Rightarrow> Inl e | Inr i \<Rightarrow>
      case dict_get d (ascii ''vacancy_name'') of Inl e \<Rightarrow> Inl e | Inr n \<Rightarrow>
      case dict_get d (ascii ''company_name'') of Inl e \<Rightarrow> Inl e | Inr c \<Rightarrow>
      case dict_get d (ascii ''description'') of Inl e \<Rightarrow> Inl e | Inr ds \<Rightarrow>
      case dict_get d (ascii ''salary_from'') of Inl e \<Rightarrow> Inl e | Inr f \<Rightarrow>
      case dict_get d (ascii ''salary_to'') of Inl e \<Rightarrow> Inl e | Inr t \<Rightarrow>
      case dict_get d (ascii ''salary_currency'') of Inl e \<Rightarrow> Inl e | Inr cur \<Rightarrow>
      case dict_get d (ascii ''area'') of Inl e \<Rightarrow> Inl e | Inr a \<Rightarrow>
      case dict_get d (ascii ''url'') of Inl e \<Rightarrow> Inl e | Inr u \<Rightarrow>
        init_Vacancy i n c ds f t cur a u)"

subsection \<open>Equality and order\<close>

text \<open>\<open>__eq__\<close>: the conjunction of three \<open>==\<close>.\<close>

definition eq_Vacancy :: "Vacancy \<Rightarrow> Vacancy \<Rightarrow> bool" where
  "eq_Vacancy self other =
     (py_eq (salary_from self) (salary_from other) \<and>
      py_eq (salary_to self) (salary_to other) \<and>
      py_eq (salary_currency self) (salary_currency other))"

text \<open>\<open>__lt__\<close>, \<open>__le__\<close>, \<open>__gt__\<close>, \<open>__ge__\<close>.\<close>

definition lt_Vacancy :: "Vacancy \<Rightarrow> Vacancy \<Rightarrow> error + bool" where
  "lt_Vacancy self other = py_lt (salary_from self) (salary_from other)"

definition le_Vacancy :: "Vacancy \<Rightarrow> Vacancy \<Rightarrow> error + bool" where
  "le_Vacancy self other = py_le (salary_from self) (salary_from other)"

definition gt_Vacancy :: "Vacancy \<Rightarrow> Vacancy \<Rightarrow> error + bool" where
  "gt_Vacancy self other = py_gt (salary_to self) (salary_to other)"

definition ge_Vacancy :: "Vacancy \<Rightarrow> Vacancy \<Rightarrow> error + bool" where
  "ge_Vacancy self other = py_ge (salary_to self) (salary_to other)"

section \<open>Example records\<close>

text \<open>Concrete records, used to run the definitions above.\<close>

definition example_A :: Vacancy where
  "example_A = \<lparr>id_num = PInt 1, vacancy_name = PStr (ascii ''Developer''),
     company_name = PStr (ascii ''Acme''), description = PStr (ascii ''Backend''),
     salary_from = PInt 100, salary_to = PInt 500, salary_currency = PStr (ascii ''USD''),
     area = PStr (ascii ''Moscow''), url = PStr (ascii ''https://a.example/1'')\<rparr>"

definition example_B :: Vacancy where
  "example_B = \<lparr>id_num = PInt 2, vacancy_name = PStr (ascii ''Tester''),
     company_name = PStr (ascii ''Acme''), description = PStr (ascii ''Backend''),
     salary_from = PFloat (Finite (to_double 200)), salary_to = PInt 300, salary_currency = PStr (ascii ''USD''),
     area = PStr (ascii ''Moscow''), url = PStr (ascii ''https://a.example/2'')\<rparr>"

text \<open>
  \<open>example_nan\<close> and \<open>example_inf\<close> have a NaN and an infinite lower bound;
  \<open>example_float\<close> has the lower bound 49999.9, that is the double nearest to it,
  \<open>6871933929704653 / 2 ^ 37\<close>; \<open>example_range\<close> has both bounds; \<open>example_huge\<close>
  has a lower bound of 4301 digits.
\<close>

definition example_nan :: Vacancy where
  "example_nan = example_A\<lparr>salary_from := PFloat NaN\<rparr>"

definition example_inf :: Vacancy where
  "example_inf = example_A\<lparr>salary_from := PFloat PosInf\<rparr>"


definition example_huge :: Vacancy where
  "example_huge = example_A\<lparr>salary_from := PInt (10 ^ int_max_str_digits)\<rparr>"

definition example_range :: Vacancy where
  "example_range = example_A\<lparr>salary_from := PInt 50000, salary_to := PFloat (Finite (to_double 70000))\<rparr>"

section \<open>Properties\<close>

subsection \<open>Basic facts\<close>

lemma isinstance_int_iff: "isinstance x C_int \<longleftrightarrow> (\<exists>b. x = PBool b) \<or> (\<exists>i. x = PInt i)"
  by (cases x) simp_all

lemma isinstance_float_iff: "isinstance x C_float \<longleftrightarrow> (\<exists>f. x = PFloat f)"
  by (cases x) simp_all

lemma isinstance_str_iff: "isinstance x C_str \<longleftrightarrow> (\<exists>s. x = PStr s)"
  by (cases x) simp_all

lemma number_value_iff:
  "(\<exists>n. number_value x = Some n) \<longleftrightarrow> isinstance x C_int \<or> isinstance x C_float"
  by (cases x) simp_all

lemma validate_data_Inr_iff:
  "validate_data v = Inr () \<longleftrightarrow>
     isinstance (id_num v) C_int \<and> isinstance (vacancy_name v) C_str \<and>
     isinstance (company_name v) C_str \<and> isinstance (description v) C_str \<and>
     (isinstance (salary_from v) C_int \<or> isinstance (salary_from v) C_float) \<and>
     (isinstance (salary_to v) C_int \<or> isinstance (salary_to v) C_float) \<and>
     isinstance (salary_currency v) C_str \<and> isinstance (area v) C_str \<and>
     isinstance (url v) C_str"
  by (simp add: validate_data_def)

text \<open>
  A record is produced by the constructor exactly when it passes \<open>validate_data\<close>:
  the constructor returns only records that pass, and every record that passes is what
  the constructor returns on its own fields.
\<close>

lemma init_Vacancy_valid:
  "init_Vacancy i n c d f t cur a u = Inr v \<Longrightarrow> validate_data v = Inr ()"
  by (auto simp: init_Vacancy_def Let_def split: sum.splits)

lemma valid_init_Vacancy:
  assumes "validate_data v = Inr ()"
  shows "init_Vacancy (id_num v) (vacancy_name v) (company_name v) (description v)
           (salary_from v) (salary_to v) (salary_currency v) (area v) (url v) = Inr v"
  using assms by (cases v) (auto simp: init_Vacancy_def Let_def validate_data_def split: if_splits)

lemma py_eq_numbers:
  "number_value a = Some x \<Longrightarrow> number_value b = Some y \<Longrightarrow> py_eq a b = nv_eq x y"
  by (cases a; cases b) simp_all

lemma py_lt_numbers:
  "number_value a = Some x \<Longrightarrow> number_value b = Some y \<Longrightarrow> py_lt a b = Inr (nv_less x y)"
  by (cases a; cases b) simp_all

lemma py_le_numbers:
  "number_value a = Some x \<Longrightarrow> number_value b = Some y \<Longrightarrow> py_le a b = Inr (nv_le x y)"
  by (cases a; cases b) simp_all

lemma py_gt_numbers:
  "number_value a = Some x \<Longrightarrow> number_value b = Some y \<Longrightarrow> py_gt a b = Inr (nv_less y x)"
  by (cases a; cases b) simp_all

lemma py_ge_numbers:
  "number_value a = Some x \<Longrightarrow> number_value b = Some y \<Longrightarrow> py_ge a b = Inr (nv_le y x)"
  by (cases a; cases b) simp_all

lemma valid_example_A: "validate_data example_A = Inr ()"
  by (simp add: validate_data_def example_A_def)

lemma valid_example_B: "validate_data example_B = Inr ()"
  by (simp add: validate_data_def example_B_def)

lemma nv_eq_sym: "nv_eq x y = nv_eq y x"
  by (cases x; cases y) auto

lemma py_eq_sym: "py_eq a b = py_eq b a"
  by (cases a; cases b) (auto simp: nv_eq_sym)

lemma nv_eq_refl: "nv_eq x x \<longleftrightarrow> x \<noteq> Undefined"
  by (cases x) simp_all

lemma float_value_Undefined: "float_value f = Undefined \<longleftrightarrow> f = NaN"
  by (cases f) simp_all

lemma py_eq_refl: "py_eq x x \<longleftrightarrow> x \<noteq> PFloat NaN"
  by (cases x) (simp_all add: nv_eq_refl float_value_Undefined)

lemma trunc_of_int: "trunc (of_int i) = i"
  by (simp add: trunc_def)

lemma trunc_bounds:
  "\<bar>of_int (trunc q)\<bar> \<le> \<bar>q\<bar> \<and> \<bar>q\<bar> < \<bar>of_int (trunc q)\<bar> + 1"
  unfolding trunc_def by (auto; linarith)


lemma py_int_float: "float_value f = Rat x \<Longrightarrow> py_int (PFloat f) = Inr (trunc x)"
  by (cases f) (auto simp: trunc_def)

lemma py_int_finite: "number_value a = Some (Rat x) \<Longrightarrow> py_int a = Inr (trunc x)"
  by (cases a) (auto simp: trunc_def py_int_float)

lemma py_eq_zero: "number_value a = Some (Rat x) \<Longrightarrow> py_eq a (PInt 0) \<longleftrightarrow> x = 0"
  by (simp add: py_eq_numbers [where y = "Rat 0"])


lemma double_value_to_double:
  assumes "\<bar>q\<bar> < 100000"
  shows "double_value (to_double q) = q"
proof -
  have "(100000 :: rat) < 2 ^ 17"
    by simp
  also have "(2 :: rat) ^ 17 < 2 ^ 1024"
    by (rule power_strict_increasing) simp_all
  finally have "(100000 :: rat) < 2 ^ 1024" .
  with assms have "\<bar>q\<bar> < 2 ^ 1024"
    by (rule less_trans)
  then show ?thesis
    by (intro to_double_inverse CollectI)
qed

text \<open>The text of a natural number has at most \<open>k\<close> digits exactly when it is below \<open>10 ^ k\<close>.\<close>

lemma length_show_nat: "0 < k \<Longrightarrow> length (show_nat n) \<le> k \<longleftrightarrow> n < 10 ^ k"
proof (induction n arbitrary: k rule: show_nat.induct)
  case (1 n)
  show ?case
  proof (cases "n < 10")
    case True
    have "(10 :: nat) ^ 1 \<le> 10 ^ k"
      using 1(2) by (intro power_increasing) simp_all
    with True have "n < 10 ^ k" by simp
    moreover have "length (show_nat n) = 1"
      using True by (subst show_nat.simps) simp
    ultimately show ?thesis using 1(2) by simp
  next
    case False
    have len: "length (show_nat n) = Suc (length (show_nat (n div 10)))"
      using False by (subst show_nat.simps) simp
    show ?thesis
    proof (cases k)
      case 0
      with 1(2) show ?thesis by simp
    next
      case (Suc j)
      show ?thesis
      proof (cases "j = 0")
        case True
        have "0 < length (show_nat (n div 10))"
          by (subst show_nat.simps) simp
        with len True Suc False show ?thesis by simp
      next
        case jpos: False
        then have "length (show_nat (n div 10)) \<le> j \<longleftrightarrow> n div 10 < 10 ^ j"
          using 1(1) [OF False, of j] by simp
        moreover have "n div 10 < 10 ^ j \<longleftrightarrow> n < 10 ^ j * 10"
          by (simp add: div_less_iff_less_mult)
        ultimately show ?thesis
          using len Suc by (simp add: mult.commute)
      qed
    qed
  qed
qed

lemma str_int_iff:
  "str_int i =
     (if \<bar>i\<bar> < 10 ^ int_max_str_digits then Inr (show_int i) else Inl (ValueError int_limit_msg))"
proof -
  have "0 < int_max_str_digits"
    by (simp add: int_max_str_digits_def)
  then have "length (show_nat (nat \<bar>i\<bar>)) \<le> int_max_str_digits \<longleftrightarrow>
      nat \<bar>i\<bar> < 10 ^ int_max_str_digits"
    by (rule length_show_nat)
  also have "\<dots> \<longleftrightarrow> \<bar>i\<bar> < 10 ^ int_max_str_digits"
    by (simp add: nat_less_iff)
  finally show ?thesis
    by (auto simp: str_int_def)
qed

lemma str_int_small: "\<bar>i\<bar> < 10 ^ int_max_str_digits \<Longrightarrow> str_int i = Inr (show_int i)"
  by (simp add: str_int_iff)

lemma str_int_large:
  "10 ^ int_max_str_digits \<le> \<bar>i\<bar> \<Longrightarrow> str_int i = Inl (ValueError int_limit_msg)"
  by (simp add: str_int_iff)

lemma trunc_limit:
  assumes "\<bar>x\<bar> < 10 ^ n"
  shows "\<bar>trunc x\<bar> < 10 ^ n"
proof -
  have "(of_int \<bar>trunc x\<bar> :: rat) \<le> \<bar>x\<bar>"
    using trunc_bounds [of x] by simp
  also note assms
  also have "(10 :: rat) ^ n = of_int (10 ^ n)"
    by simp
  finally show ?thesis
    by (simp only: of_int_less_iff)
qed


lemma small_limit_rat: "\<bar>q :: rat\<bar> < 100000 \<Longrightarrow> \<bar>q\<bar> < 10 ^ int_max_str_digits"
proof -
  assume "\<bar>q\<bar> < 100000"
  also have "(100000 :: rat) = 10 ^ 5"
    by simp
  also have "(10 :: rat) ^ 5 \<le> 10 ^ int_max_str_digits"
    by (rule power_increasing) (simp_all add: int_max_str_digits_def)
  finally show ?thesis .
qed


lemma from_part_finite:
  "number_value (salary_from v) = Some (Rat x) \<Longrightarrow> \<bar>x\<bar> < 10 ^ int_max_str_digits \<Longrightarrow>
   from_part v = Inr (if x \<noteq> 0 then from_word @ show_int (trunc x) @ ascii '' '' else [])"
  by (simp add: from_part_def py_ne_def py_eq_zero py_int_finite str_int_small trunc_limit)

lemma to_part_finite:
  "number_value (salary_to v) = Some (Rat y) \<Longrightarrow> \<bar>y\<bar> < 10 ^ int_max_str_digits \<Longrightarrow>
   to_part v = Inr (if y \<noteq> 0 then to_word @ show_int (trunc y) @ ascii '' '' else [])"
  by (simp add: to_part_def py_ne_def py_eq_zero py_int_finite str_int_small trunc_limit)

lemma py_format_int:
  assumes "isinstance x C_int" and "number_value x = Some (Rat z)"
    and "\<bar>z\<bar> < 10 ^ int_max_str_digits"
  shows "\<exists>s. py_format x = Inr s"
proof (cases x)
  case (PInt i)
  with assms(2) have "z = of_int i"
    by simp
  with assms(3) have "\<bar>i\<bar> < 10 ^ int_max_str_digits"
    using trunc_limit [of "of_int i" int_max_str_digits] by (simp add: trunc_of_int)
  with PInt show ?thesis
    by (simp add: str_int_small)
qed (use assms(1) in simp_all)

lemma show_nat_digit: "n < 10 \<Longrightarrow> show_nat n = [48 + n]"
  by (simp add: show_nat.simps)

lemma show_nat_more: "10 \<le> n \<Longrightarrow> show_nat n = show_nat (n div 10) @ [48 + n mod 10]"
  by (subst show_nat.simps) simp

lemma show_int_examples:
  "show_int 49999 = ascii ''49999''" "show_int 50000 = ascii ''50000''"
  "show_int 70000 = ascii ''70000''"
  by (simp_all add: show_int_def show_nat_digit show_nat_more ascii_def)


lemma from_dict_to_dict:
  "from_dict (to_dict v) =
   init_Vacancy (id_num v) (vacancy_name v) (company_name v) (description v)
     (salary_from v) (salary_to v) (salary_currency v) (area v) (url v)"
  by (simp add: from_dict_def to_dict_def dict_get_def ascii_def)

lemma messages_distinct:
  "distinct [msg_id_num, msg_vacancy_name, msg_company_name, msg_description,
     msg_salary_from, msg_salary_to, msg_salary_currency, msg_area, msg_url]"
  by (simp add: msg_id_num_def msg_vacancy_name_def msg_company_name_def msg_description_def
      msg_salary_from_def msg_salary_to_def msg_salary_currency_def msg_area_def msg_url_def)

lemma validate_data_cases:
  "validate_data v = Inr () \<or> (\<exists>m. validate_data v = Inl (ValueError m))"
  by (simp add: validate_data_def)

lemma init_Vacancy_well_typed:
  assumes "isinstance i C_int" and "isinstance n C_str" and "isinstance c C_str"
    and "isinstance d C_str"
    and "f = PNone \<or> isinstance f C_int \<or> isinstance f C_float"
    and "t = PNone \<or> isinstance t C_int \<or> isinstance t C_float"
    and "cur = PNone \<or> isinstance cur C_str"
    and "isinstance a C_str" and "isinstance u C_str"
  shows "init_Vacancy i n c d f t cur a u =
         Inr \<lparr>id_num = i, vacancy_name = n, company_name = c, description = d,
              salary_from = (if f = PNone then PInt 0 else f),
              salary_to = (if t = PNone then PInt 0 else t),
              salary_currency = (if cur = PNone then PStr no_data else cur),
              area = a, url = u\<rparr>"
  using assms by (auto simp: init_Vacancy_def validate_data_def)

lemma init_Vacancy_ill_typed:
  assumes "\<not> (isinstance i C_int \<and> isinstance n C_str \<and> isinstance c C_str \<and>
              isinstance d C_str \<and>
              (f = PNone \<or> isinstance f C_int \<or> isinstance f C_float) \<and>
              (t = PNone \<or> isinstance t C_int \<or> isinstance t C_float) \<and>
              (cur = PNone \<or> isinstance cur C_str) \<and>
              isinstance a C_str \<and> isinstance u C_str)"
  shows "\<exists>m. init_Vacancy i n c d f t cur a u = Inl (ValueError m)"
proof -
  define v where "v = \<lparr>id_num = i, vacancy_name = n, company_name = c, description = d,
              salary_from = (if f \<noteq> PNone then f else PInt 0),
              salary_to = (if t \<noteq> PNone then t else PInt 0),
              salary_currency = (if cur \<noteq> PNone then cur else PStr no_data),
              area = a, url = u\<rparr>"
  have "validate_data v \<noteq> Inr ()"
    using assms by (auto simp: validate_data_Inr_iff v_def)
  then obtain m where "validate_data v = Inl (ValueError m)"
    using validate_data_cases [of v] by blast
  then show ?thesis
    unfolding init_Vacancy_def Let_def v_def by simp
qed

lemma valid_example_nan: "validate_data example_nan = Inr ()"
  by (simp add: validate_data_def example_nan_def example_A_def)

lemma str_Vacancy_valid:
  assumes "validate_data v = Inr ()" and "salary_range v = Inr sr"
    and "py_format (id_num v) = Inr i"
  shows "\<exists>n c d a u.
           vacancy_name v = PStr n \<and>
           company_name v = PStr c \<and> description v = PStr d \<and> area v = PStr a \<and>
           url v = PStr u \<and>
           str_Vacancy v =
             Inr (label_id @ i @ [10] @
                  label_vacancy_name @ n @ [10] @
                  label_company_name @ c @ [10] @
                  label_description @ d @ [10] @
                  label_salary @ sr @ [10] @
                  label_area @ a @ [10] @
                  label_url @ u)"
proof -
  from assms(1) obtain n c d a u where
    "vacancy_name v = PStr n" "company_name v = PStr c"
    "description v = PStr d" "area v = PStr a" "url v = PStr u"
    unfolding validate_data_Inr_iff isinstance_str_iff by blast
  then show ?thesis
    using assms(2,3) by (simp add: str_Vacancy_def)
qed


text \<open>
  An \<open>int\<close> bound of 4301 digits passes validation, and rendering raises the
  \<open>ValueError\<close> of the digit limit.
\<close>

lemma str_Vacancy_digit_limit:
  "validate_data example_huge = Inr () \<and>
   str_Vacancy example_huge = Inl (ValueError int_limit_msg)"
  by (simp add: validate_data_def example_huge_def example_A_def str_Vacancy_def
      salary_range_def from_part_def py_ne_def str_int_large)

subsection \<open>Equality\<close>

text \<open>
  Claim C1. For two validly constructed records, \<open>__eq__\<close> is true exactly when the
  two \<open>salary_from\<close> compare equal, the two \<open>salary_to\<close> compare equal and the two
  currencies are the same text; replacing id, title, employer, description, area and url
  in either record by anything does not change the result.
\<close>

theorem eq_Vacancy_salary_fields:
  assumes "validate_data a = Inr ()" and "validate_data b = Inr ()"
  shows "(eq_Vacancy a b \<longleftrightarrow>
            py_eq (salary_from a) (salary_from b) \<and> py_eq (salary_to a) (salary_to b) \<and>
            salary_currency a = salary_currency b) \<and>
         eq_Vacancy
           (a\<lparr>id_num := i, vacancy_name := n, company_name := c, description := d,
              area := r, url := u\<rparr>)
           (b\<lparr>id_num := i', vacancy_name := n', company_name := c', description := d',
              area := r', url := u'\<rparr>) = eq_Vacancy a b"
proof -
  from assms obtain s t where "salary_currency a = PStr s" "salary_currency b = PStr t"
    by (auto simp: validate_data_Inr_iff isinstance_str_iff)
  then show ?thesis
    by (simp add: eq_Vacancy_def)
qed

theorem eq_Vacancy_salary_fields_witness:
  "validate_data example_A = Inr () \<and> validate_data (example_B\<lparr>salary_from := PFloat (Finite (to_double 100)), salary_to := PInt 500\<rparr>) = Inr () \<and>
   eq_Vacancy example_A (example_B\<lparr>salary_from := PFloat (Finite (to_double 100)), salary_to := PInt 500\<rparr>) \<and>
   \<not> eq_Vacancy example_A (example_A\<lparr>salary_currency := PStr (ascii ''RUB'')\<rparr>)"
  using eq_Vacancy_salary_fields [of example_A "example_B\<lparr>salary_from := PFloat (Finite (to_double 100)), salary_to := PInt 500\<rparr>"]
    eq_Vacancy_salary_fields [of example_A "example_A\<lparr>salary_currency := PStr (ascii ''RUB'')\<rparr>"]
  by (simp add: validate_data_def example_A_def example_B_def ascii_def double_value_to_double)

text \<open>
  Claim C9, as the source has it. \<open>__eq__\<close> is symmetric on all records. It is
  reflexive on a validly constructed record exactly when neither salary bound is the
  float NaN: \<open>nan == nan\<close> is false, and validation accepts NaN as a float.
\<close>

theorem eq_Vacancy_refl_sym:
  "(validate_data v = Inr () \<longrightarrow>
      (eq_Vacancy v v \<longleftrightarrow> salary_from v \<noteq> PFloat NaN \<and> salary_to v \<noteq> PFloat NaN)) \<and>
   (eq_Vacancy a b \<longrightarrow> eq_Vacancy b a)"
proof (intro conjI impI)
  assume "validate_data v = Inr ()"
  then obtain cur where "salary_currency v = PStr cur"
    unfolding validate_data_Inr_iff isinstance_str_iff by blast
  then show "eq_Vacancy v v \<longleftrightarrow> salary_from v \<noteq> PFloat NaN \<and> salary_to v \<noteq> PFloat NaN"
    by (simp add: eq_Vacancy_def py_eq_refl)
next
  assume "eq_Vacancy a b"
  then show "eq_Vacancy b a"
    unfolding eq_Vacancy_def
    by (simp add: py_eq_sym [of "salary_from b"] py_eq_sym [of "salary_to b"]
        py_eq_sym [of "salary_currency b"])
qed

theorem eq_Vacancy_refl_sym_witness:
  "validate_data example_A = Inr () \<and> eq_Vacancy example_A example_A \<and>
   eq_Vacancy example_A (example_B\<lparr>salary_from := PFloat (Finite (to_double 100)), salary_to := PInt 500\<rparr>) \<and>
   eq_Vacancy (example_B\<lparr>salary_from := PFloat (Finite (to_double 100)), salary_to := PInt 500\<rparr>) example_A"
  using eq_Vacancy_refl_sym [of example_A example_A
      "example_B\<lparr>salary_from := PFloat (Finite (to_double 100)), salary_to := PInt 500\<rparr>"]
  by (simp add: valid_example_A)
     (simp add: eq_Vacancy_def example_A_def example_B_def double_value_to_double)

theorem eq_Vacancy_nan_counterexample:
  "validate_data example_nan = Inr () \<and> \<not> eq_Vacancy example_nan example_nan"
  by (simp add: valid_example_nan) (simp add: eq_Vacancy_def example_nan_def)

subsection \<open>Order\<close>

text \<open>
  Claim C2. For two validly constructed records none of the four comparisons raises;
  \<open><\<close> and \<open><=\<close> return the comparison of the values of the two \<open>salary_from\<close>,
  \<open>>\<close> and \<open>>=\<close> the comparison of the values of the two \<open>salary_to\<close>.
\<close>

theorem order_Vacancy_fields:
  assumes "validate_data a = Inr ()" and "validate_data b = Inr ()"
  shows "\<exists>x x' y y'.
           number_value (salary_from a) = Some x \<and> number_value (salary_from b) = Some x' \<and>
           number_value (salary_to a) = Some y \<and> number_value (salary_to b) = Some y' \<and>
           lt_Vacancy a b = Inr (nv_less x x') \<and> le_Vacancy a b = Inr (nv_le x x') \<and>
           gt_Vacancy a b = Inr (nv_less y' y) \<and> ge_Vacancy a b = Inr (nv_le y' y)"
proof -
  from assms obtain x x' y y' where
    nv: "number_value (salary_from a) = Some x" "number_value (salary_from b) = Some x'"
        "number_value (salary_to a) = Some y" "number_value (salary_to b) = Some y'"
    unfolding validate_data_Inr_iff number_value_iff [symmetric] by blast
  then show ?thesis
    by (simp add: lt_Vacancy_def le_Vacancy_def gt_Vacancy_def ge_Vacancy_def
        py_lt_numbers py_le_numbers py_gt_numbers py_ge_numbers)
qed

theorem order_Vacancy_fields_witness:
  "validate_data example_A = Inr () \<and> validate_data example_B = Inr () \<and>
   lt_Vacancy example_A example_B = Inr True \<and> lt_Vacancy example_B example_A = Inr False \<and>
   le_Vacancy example_A example_B = Inr True \<and>
   gt_Vacancy example_A example_B = Inr True \<and> ge_Vacancy example_A example_B = Inr True"
  using order_Vacancy_fields [OF valid_example_A valid_example_B]
    order_Vacancy_fields [OF valid_example_B valid_example_A]
  by (simp add: validate_data_def example_A_def example_B_def nv_le_def
      lt_Vacancy_def le_Vacancy_def gt_Vacancy_def ge_Vacancy_def double_value_to_double)

subsection \<open>Construction\<close>

text \<open>
  Claim C10. With the id \<open>True\<close> and the other eight fields of the correct types,
  construction succeeds and the stored id is \<open>True\<close>: \<open>isinstance(True, int)\<close> holds.
\<close>

theorem init_Vacancy_bool_id:
  "init_Vacancy (PBool True) (PStr n) (PStr c) (PStr d) (PInt f) (PInt t) (PStr cur)
     (PStr a) (PStr u) =
   Inr \<lparr>id_num = PBool True, vacancy_name = PStr n, company_name = PStr c,
        description = PStr d, salary_from = PInt f, salary_to = PInt t,
        salary_currency = PStr cur, area = PStr a, url = PStr u\<rparr>"
  by (simp add: init_Vacancy_def validate_data_def)

text \<open>
  Claim C3. With the other fields of the correct types, a \<open>None\<close> salary bound is stored
  as \<open>0\<close> and a \<open>None\<close> currency as the "no data" text, each of the three on its own,
  and construction succeeds whichever of the three are \<open>None\<close>.
\<close>

theorem init_Vacancy_None_defaults:
  assumes "isinstance i C_int" and "isinstance n C_str" and "isinstance c C_str"
    and "isinstance d C_str" and "isinstance a C_str" and "isinstance u C_str"
    and "f = PNone \<or> isinstance f C_int \<or> isinstance f C_float"
    and "t = PNone \<or> isinstance t C_int \<or> isinstance t C_float"
    and "cur = PNone \<or> isinstance cur C_str"
  shows "init_Vacancy i n c d f t cur a u =
         Inr \<lparr>id_num = i, vacancy_name = n, company_name = c, description = d,
              salary_from = (if f = PNone then PInt 0 else f),
              salary_to = (if t = PNone then PInt 0 else t),
              salary_currency = (if cur = PNone then PStr no_data else cur),
              area = a, url = u\<rparr>"
  using assms by (auto simp: init_Vacancy_def validate_data_def)

theorem init_Vacancy_None_defaults_witness:
  "init_Vacancy (PInt 7) (PStr (ascii ''Developer'')) (PStr (ascii ''Acme''))
     (PStr (ascii ''Backend'')) PNone PNone PNone (PStr (ascii ''Moscow''))
     (PStr (ascii ''https://a.example/7'')) =
   Inr \<lparr>id_num = PInt 7, vacancy_name = PStr (ascii ''Developer''),
        company_name = PStr (ascii ''Acme''), description = PStr (ascii ''Backend''),
        salary_from = PInt 0, salary_to = PInt 0, salary_currency = PStr no_data,
        area = PStr (ascii ''Moscow''), url = PStr (ascii ''https://a.example/7'')\<rparr>"
  using init_Vacancy_None_defaults [of "PInt 7" "PStr (ascii ''Developer'')"
      "PStr (ascii ''Acme'')" "PStr (ascii ''Backend'')" "PStr (ascii ''Moscow'')"
      "PStr (ascii ''https://a.example/7'')" PNone PNone PNone]
  by simp

text \<open>
  Claim C4. A value of a wrong runtime type in any of the nine fields makes construction
  fail with the validation error (the source raises \<open>ValueError\<close>) and yields no object;
  with all nine of a correct type construction succeeds and every accessor returns the
  input, or its default where the input was \<open>None\<close>. The three salary fields are
  nullable: \<open>None\<close> is among their correct values (it is the value that is coerced), and
  a wrong type for them is a value that is neither \<open>None\<close> nor of the class checked.
  An integer is what \<open>isinstance(x, int)\<close> accepts, a number what
  \<open>isinstance(x, (int, float))\<close> accepts.
\<close>

theorem init_Vacancy_type_checks:
  "(\<not> isinstance i C_int \<or> \<not> isinstance n C_str \<or> \<not> isinstance c C_str \<or>
    \<not> isinstance d C_str \<or>
    (f \<noteq> PNone \<and> \<not> isinstance f C_int \<and> \<not> isinstance f C_float) \<or>
    (t \<noteq> PNone \<and> \<not> isinstance t C_int \<and> \<not> isinstance t C_float) \<or>
    (cur \<noteq> PNone \<and> \<not> isinstance cur C_str) \<or>
    \<not> isinstance a C_str \<or> \<not> isinstance u C_str
    \<longrightarrow> (\<exists>m. init_Vacancy i n c d f t cur a u = Inl (ValueError m))) \<and>
   (isinstance i C_int \<and> isinstance n C_str \<and> isinstance c C_str \<and> isinstance d C_str \<and>
    (f = PNone \<or> isinstance f C_int \<or> isinstance f C_float) \<and>
    (t = PNone \<or> isinstance t C_int \<or> isinstance t C_float) \<and>
    (cur = PNone \<or> isinstance cur C_str) \<and>
    isinstance a C_str \<and> isinstance u C_str
    \<longrightarrow> (\<exists>v. init_Vacancy i n c d f t cur a u = Inr v \<and>
           id_num v = i \<and> vacancy_name v = n \<and> company_name v = c \<and> description v = d \<and>
           salary_from v = (if f = PNone then PInt 0 else f) \<and>
           salary_to v = (if t = PNone then PInt 0 else t) \<and>
           salary_currency v = (if cur = PNone then PStr no_data else cur) \<and>
           area v = a \<and> url v = u))"
proof (intro conjI impI)
  assume "\<not> isinstance i C_int \<or> \<not> isinstance n C_str \<or> \<not> isinstance c C_str \<or>
    \<not> isinstance d C_str \<or>
    (f \<noteq> PNone \<and> \<not> isinstance f C_int \<and> \<not> isinstance f C_float) \<or>
    (t \<noteq> PNone \<and> \<not> isinstance t C_int \<and> \<not> isinstance t C_float) \<or>
    (cur \<noteq> PNone \<and> \<not> isinstance cur C_str) \<or>
    \<not> isinstance a C_str \<or> \<not> isinstance u C_str"
  then have "\<not> (isinstance i C_int \<and> isinstance n C_str \<and> isinstance c C_str \<and>
              isinstance d C_str \<and>
              (f = PNone \<or> isinstance f C_int \<or> isinstance f C_float) \<and>
              (t = PNone \<or> isinstance t C_int \<or> isinstance t C_float) \<and>
              (cur = PNone \<or> isinstance cur C_str) \<and>
              isinstance a C_str \<and> isinstance u C_str)"
    by blast
  then show "\<exists>m. init_Vacancy i n c d f t cur a u = Inl (ValueError m)"
    by (rule init_Vacancy_ill_typed)
next
  assume ok: "isinstance i C_int \<and> isinstance n C_str \<and> isinstance c C_str \<and> isinstance d C_str \<and>
    (f = PNone \<or> isinstance f C_int \<or> isinstance f C_float) \<and>
    (t = PNone \<or> isinstance t C_int \<or> isinstance t C_float) \<and>
    (cur = PNone \<or> isinstance cur C_str) \<and>
    isinstance a C_str \<and> isinstance u C_str"
  have "init_Vacancy i n c d f t cur a u =
         Inr \<lparr>id_num = i, vacancy_name = n, company_name = c, description = d,
              salary_from = (if f = PNone then PInt 0 else f),
              salary_to = (if t = PNone then PInt 0 else t),
              salary_currency = (if cur = PNone then PStr no_data else cur),
              area = a, url = u\<rparr>"
    by (rule init_Vacancy_well_typed) (use ok in blast)+
  then show "\<exists>v. init_Vacancy i n c d f t cur a u = Inr v \<and>
           id_num v = i \<and> vacancy_name v = n \<and> company_name v = c \<and> description v = d \<and>
           salary_from v = (if f = PNone then PInt 0 else f) \<and>
           salary_to v = (if t = PNone then PInt 0 else t) \<and>
           salary_currency v = (if cur = PNone then PStr no_data else cur) \<and>
           area v = a \<and> url v = u"
    by simp
qed

theorem init_Vacancy_type_checks_witness:
  "(\<exists>m. init_Vacancy (PFloat (Finite (to_double 1))) (PStr (ascii ''Developer'')) (PStr (ascii ''Acme''))
          (PStr (ascii ''Backend'')) (PInt 100) (PInt 500) (PStr (ascii ''USD''))
          (PStr (ascii ''Moscow'')) (PStr (ascii ''https://a.example/1'')) =
        Inl (ValueError m)) \<and>
   (\<exists>m. init_Vacancy (PInt 1) (PStr (ascii ''Developer'')) (PStr (ascii ''Acme''))
          (PStr (ascii ''Backend'')) (PInt 100) (PStr (ascii ''500'')) (PStr (ascii ''USD''))
          (PStr (ascii ''Moscow'')) (PStr (ascii ''https://a.example/1'')) =
        Inl (ValueError m)) \<and>
   (\<exists>v. init_Vacancy (PInt 1) (PStr (ascii ''Developer'')) (PStr (ascii ''Acme''))
          (PStr (ascii ''Backend'')) (PFloat (Finite (to_double 100))) PNone (PStr (ascii ''USD''))
          (PStr (ascii ''Moscow'')) (PStr (ascii ''https://a.example/1'')) = Inr v \<and>
        id_num v = PInt 1 \<and> salary_from v = PFloat (Finite (to_double 100)) \<and> salary_to v = PInt 0 \<and>
        salary_currency v = PStr (ascii ''USD''))"
  using
    init_Vacancy_type_checks [of "PFloat (Finite (to_double 1))" "PStr (ascii ''Developer'')"
      "PStr (ascii ''Acme'')" "PStr (ascii ''Backend'')" "PInt 100" "PInt 500"
      "PStr (ascii ''USD'')" "PStr (ascii ''Moscow'')" "PStr (ascii ''https://a.example/1'')"]
    init_Vacancy_type_checks [of "PInt 1" "PStr (ascii ''Developer'')"
      "PStr (ascii ''Acme'')" "PStr (ascii ''Backend'')" "PInt 100" "PStr (ascii ''500'')"
      "PStr (ascii ''USD'')" "PStr (ascii ''Moscow'')" "PStr (ascii ''https://a.example/1'')"]
    init_Vacancy_type_checks [of "PInt 1" "PStr (ascii ''Developer'')"
      "PStr (ascii ''Acme'')" "PStr (ascii ''Backend'')" "PFloat (Finite (to_double 100))" PNone
      "PStr (ascii ''USD'')" "PStr (ascii ''Moscow'')" "PStr (ascii ''https://a.example/1'')"]
  by auto

text \<open>
  Claim C7, as the source has it. The checks run in the order id, title, employer,
  description, \<open>salary_from\<close>, \<open>salary_to\<close>, currency, area, url, and not with the
  two numeric checks last; the first check that fails in this order aborts construction
  with the \<open>ValueError\<close> carrying the message of that field, whatever the later fields
  hold, and the nine messages are pairwise different. With both the currency and
  \<open>salary_from\<close> of a wrong type the error is the one of \<open>salary_from\<close>.
\<close>

theorem validate_data_order:
  "(\<not> isinstance i C_int \<longrightarrow>
      init_Vacancy i n c d f t cur a u = Inl (ValueError msg_id_num)) \<and>
   (isinstance i C_int \<and> \<not> isinstance n C_str \<longrightarrow>
      init_Vacancy i n c d f t cur a u = Inl (ValueError msg_vacancy_name)) \<and>
   (isinstance i C_int \<and> isinstance n C_str \<and> \<not> isinstance c C_str \<longrightarrow>
      init_Vacancy i n c d f t cur a u = Inl (ValueError msg_company_name)) \<and>
   (isinstance i C_int \<and> isinstance n C_str \<and> isinstance c C_str \<and> \<not> isinstance d C_str \<longrightarrow>
      init_Vacancy i n c d f t cur a u = Inl (ValueError msg_description)) \<and>
   (isinstance i C_int \<and> isinstance n C_str \<and> isinstance c C_str \<and> isinstance d C_str \<and>
    f \<noteq> PNone \<and> \<not> isinstance f C_int \<and> \<not> isinstance f C_float \<longrightarrow>
      init_Vacancy i n c d f t cur a u = Inl (ValueError msg_salary_from)) \<and>
   (isinstance i C_int \<and> isinstance n C_str \<and> isinstance c C_str \<and> isinstance d C_str \<and>
    (f = PNone \<or> isinstance f C_int \<or> isinstance f C_float) \<and>
    t \<noteq> PNone \<and> \<not> isinstance t C_int \<and> \<not> isinstance t C_float \<longrightarrow>
      init_Vacancy i n c d f t cur a u = Inl (ValueError msg_salary_to)) \<and>
   (isinstance i C_int \<and> isinstance n C_str \<and> isinstance c C_str \<and> isinstance d C_str \<and>
    (f = PNone \<or> isinstance f C_int \<or> isinstance f C_float) \<and>
    (t = PNone \<or> isinstance t C_int \<or> isinstance t C_float) \<and>
    cur \<noteq> PNone \<and> \<not> isinstance cur C_str \<longrightarrow>
      init_Vacancy i n c d f t cur a u = Inl (ValueError msg_salary_currency)) \<and>
   (isinstance i C_int \<and> isinstance n C_str \<and> isinstance c C_str \<and> isinstance d C_str \<and>
    (f = PNone \<or> isinstance f C_int \<or> isinstance f C_float) \<and>
    (t = PNone \<or> isinstance t C_int \<or> isinstance t C_float) \<and>
    (cur = PNone \<or> isinstance cur C_str) \<and> \<not> isinstance a C_str \<longrightarrow>
      init_Vacancy i n c d f t cur a u = Inl (ValueError msg_area)) \<and>
   (isinstance i C_int \<and> isinstance n C_str \<and> isinstance c C_str \<and> isinstance d C_str \<and>
    (f = PNone \<or> isinstance f C_int \<or> isinstance f C_float) \<and>
    (t = PNone \<or> isinstance t C_int \<or> isinstance t C_float) \<and>
    (cur = PNone \<or> isinstance cur C_str) \<and> isinstance a C_str \<and> \<not> isinstance u C_str \<longrightarrow>
      init_Vacancy i n c d f t cur a u = Inl (ValueError msg_url)) \<and>
   distinct [msg_id_num, msg_vacancy_name, msg_company_name, msg_description,
     msg_salary_from, msg_salary_to, msg_salary_currency, msg_area, msg_url]"
proof (intro conjI impI)
  show "distinct [msg_id_num, msg_vacancy_name, msg_company_name, msg_description,
     msg_salary_from, msg_salary_to, msg_salary_currency, msg_area, msg_url]"
    by (rule messages_distinct)
qed (auto simp: init_Vacancy_def validate_data_def)

theorem validate_data_order_witness:
  "init_Vacancy (PInt 1) (PStr (ascii ''Developer'')) (PStr (ascii ''Acme''))
     (PStr (ascii ''Backend'')) (PInt 100) (PStr (ascii ''500'')) (PObj 3) PNone PNone =
   Inl (ValueError msg_salary_to)"
  using validate_data_order [of "PInt 1" "PStr (ascii ''Developer'')" "PStr (ascii ''Acme'')"
      "PStr (ascii ''Backend'')" "PInt 100" "PStr (ascii ''500'')" "PObj 3" PNone PNone]
  by simp

theorem validate_data_order_counterexample:
  "init_Vacancy (PInt 1) (PStr (ascii ''Developer'')) (PStr (ascii ''Acme''))
     (PStr (ascii ''Backend'')) (PStr (ascii ''100'')) (PInt 500) (PInt 840)
     (PStr (ascii ''Moscow'')) (PStr (ascii ''https://a.example/1'')) =
   Inl (ValueError msg_salary_from) \<and>
   ValueError msg_salary_from \<noteq> ValueError msg_salary_currency"
  using messages_distinct by (simp add: init_Vacancy_def validate_data_def)

subsection \<open>Rendering\<close>

text \<open>
  Claim C5, as the source has it. Take a validly constructed record whose two salary
  bounds are finite (an int, a bool or a finite float) and, like its id, below
  \<open>10 ^ 4300\<close> in absolute value, so that their integer text has at most the 4300 digits
  the interpreter converts. Its salary phrase is the "no information" text when both
  bounds are zero, and otherwise the "from" clause with the truncated lower bound if that
  is not zero, then the "to" clause with the truncated upper bound if that is not zero,
  then the currency; an absent clause adds nothing. \<open>__str__\<close> returns the seven lines
  with this phrase in the salary line. With an infinite or NaN bound, which validation
  accepts, \<open>int\<close> raises and nothing is rendered; an integer of more than 4300 digits
  raises in the conversion to text.
\<close>

theorem salary_range_finite:
  assumes "validate_data v = Inr ()"
    and "number_value (salary_from v) = Some (Rat x)"
    and "number_value (salary_to v) = Some (Rat y)"
    and "number_value (id_num v) = Some (Rat z)"
    and "\<bar>x\<bar> < 10 ^ int_max_str_digits"
    and "\<bar>y\<bar> < 10 ^ int_max_str_digits"
    and "\<bar>z\<bar> < 10 ^ int_max_str_digits"
  shows "\<exists>cur sr i n c d a u.
           salary_currency v = PStr cur \<and>
           sr = (if x = 0 \<and> y = 0 then no_information
                 else (if x \<noteq> 0 then from_word @ show_int (trunc x) @ ascii '' '' else []) @
                      (if y \<noteq> 0 then to_word @ show_int (trunc y) @ ascii '' '' else []) @
                      cur) \<and>
           salary_range v = Inr sr \<and>
           py_format (id_num v) = Inr i \<and> vacancy_name v = PStr n \<and>
           company_name v = PStr c \<and> description v = PStr d \<and> area v = PStr a \<and>
           url v = PStr u \<and>
           str_Vacancy v =
             Inr (label_id @ i @ [10] @
                  label_vacancy_name @ n @ [10] @
                  label_company_name @ c @ [10] @
                  label_description @ d @ [10] @
                  label_salary @ sr @ [10] @
                  label_area @ a @ [10] @
                  label_url @ u)"
proof -
  from assms(1) obtain cur where cur: "salary_currency v = PStr cur"
    unfolding validate_data_Inr_iff isinstance_str_iff by blast
  from assms(1) have "isinstance (id_num v) C_int"
    by (simp add: validate_data_Inr_iff)
  then obtain i where i: "py_format (id_num v) = Inr i"
    using py_format_int [OF _ assms(4) assms(7)] by blast
  define sr where "sr = (if x = 0 \<and> y = 0 then no_information
                 else (if x \<noteq> 0 then from_word @ show_int (trunc x) @ ascii '' '' else []) @
                      (if y \<noteq> 0 then to_word @ show_int (trunc y) @ ascii '' '' else []) @
                      cur)"
  have "salary_range v = Inr sr"
    unfolding salary_range_def sr_def
    by (simp add: py_eq_zero [OF assms(2)] py_eq_zero [OF assms(3)]
        from_part_finite [OF assms(2) assms(5)] to_part_finite [OF assms(3) assms(6)] cur
        del: py_eq.simps)
  with str_Vacancy_valid [OF assms(1) this i] cur sr_def i show ?thesis
    by blast
qed

theorem salary_range_finite_witness:
  "validate_data example_range = Inr () \<and>
   salary_range example_range =
     Inr (from_word @ ascii ''50000'' @ ascii '' '' @ to_word @ ascii ''70000'' @ ascii '' '' @
          ascii ''USD'') \<and>
   salary_range (example_range\<lparr>salary_to := PInt 0\<rparr>) =
     Inr (from_word @ ascii ''50000'' @ ascii '' '' @ ascii ''USD'') \<and>
   salary_range (example_range\<lparr>salary_from := PFloat NegZero, salary_to := PBool False\<rparr>) =
     Inr no_information"
proof -
  have lim: "\<bar>50000 :: rat\<bar> < 10 ^ int_max_str_digits"
    "\<bar>70000 :: rat\<bar> < 10 ^ int_max_str_digits" "\<bar>1 :: rat\<bar> < 10 ^ int_max_str_digits"
    "\<bar>0 :: rat\<bar> < 10 ^ int_max_str_digits"
    by (rule small_limit_rat, simp)+
  have tr: "trunc 50000 = 50000" "trunc 70000 = 70000"
    by (simp_all add: trunc_def)
  have v1: "validate_data example_range = Inr ()"
    by (simp add: validate_data_def example_range_def example_A_def)
  have "salary_range example_range =
     Inr (from_word @ ascii ''50000'' @ ascii '' '' @ to_word @ ascii ''70000'' @ ascii '' '' @
          ascii ''USD'')"
    using salary_range_finite [of example_range 50000 70000 1] lim
    by (simp add: validate_data_def example_range_def example_A_def double_value_to_double
        tr show_int_examples)
  moreover have "salary_range (example_range\<lparr>salary_to := PInt 0\<rparr>) =
     Inr (from_word @ ascii ''50000'' @ ascii '' '' @ ascii ''USD'')"
    using salary_range_finite [of "example_range\<lparr>salary_to := PInt 0\<rparr>" 50000 0 1] lim
    by (simp add: validate_data_def example_range_def example_A_def tr show_int_examples)
  moreover have
    "salary_range (example_range\<lparr>salary_from := PFloat NegZero, salary_to := PBool False\<rparr>) =
     Inr no_information"
    using salary_range_finite
      [of "example_range\<lparr>salary_from := PFloat NegZero, salary_to := PBool False\<rparr>" 0 0 1] lim
    by (simp add: validate_data_def example_range_def example_A_def)
  ultimately show ?thesis
    using v1 by simp
qed

theorem str_Vacancy_infinity_counterexample:
  "validate_data example_inf = Inr () \<and>
   salary_range example_inf =
     Inl (OverflowError (ascii ''cannot convert float infinity to integer'')) \<and>
   str_Vacancy example_inf =
     Inl (OverflowError (ascii ''cannot convert float infinity to integer''))"
  by (simp add: validate_data_def example_inf_def example_A_def str_Vacancy_def
      salary_range_def from_part_def py_ne_def)



subsection \<open>Dictionary export\<close>

text \<open>
  Claim C6, as the source has it. The exported dict has the nine field names as keys, in
  the order of the fields, and the stored values as they are. Constructing from these
  values succeeds and gives a record that agrees with the original on all nine
  accessors; it is equal to the original under \<open>__eq__\<close> exactly when neither salary
  bound is the float NaN.
\<close>

theorem to_dict_round_trip:
  assumes "validate_data v = Inr ()"
  shows "map fst (to_dict v) =
           [ascii ''id_num'', ascii ''vacancy_name'', ascii ''company_name'',
            ascii ''description'', ascii ''salary_from'', ascii ''salary_to'',
            ascii ''salary_currency'', ascii ''area'', ascii ''url''] \<and>
         map snd (to_dict v) =
           [id_num v, vacancy_name v, company_name v, description v, salary_from v,
            salary_to v, salary_currency v, area v, url v] \<and>
         (\<exists>w. from_dict (to_dict v) = Inr w \<and>
              id_num w = id_num v \<and> vacancy_name w = vacancy_name v \<and>
              company_name w = company_name v \<and> description w = description v \<and>
              salary_from w = salary_from v \<and> salary_to w = salary_to v \<and>
              salary_currency w = salary_currency v \<and> area w = area v \<and> url w = url v \<and>
              (eq_Vacancy w v \<longleftrightarrow>
                 salary_from v \<noteq> PFloat NaN \<and> salary_to v \<noteq> PFloat NaN))"
proof -
  from assms obtain cur where "salary_currency v = PStr cur"
    unfolding validate_data_Inr_iff isinstance_str_iff by blast
  then have "eq_Vacancy v v \<longleftrightarrow> salary_from v \<noteq> PFloat NaN \<and> salary_to v \<noteq> PFloat NaN"
    by (simp add: eq_Vacancy_def py_eq_refl)
  moreover have "from_dict (to_dict v) = Inr v"
    using assms by (simp add: from_dict_to_dict valid_init_Vacancy)
  moreover have "map fst (to_dict v) =
           [ascii ''id_num'', ascii ''vacancy_name'', ascii ''company_name'',
            ascii ''description'', ascii ''salary_from'', ascii ''salary_to'',
            ascii ''salary_currency'', ascii ''area'', ascii ''url'']"
    by (simp add: to_dict_def)
  moreover have "map snd (to_dict v) =
           [id_num v, vacancy_name v, company_name v, description v, salary_from v,
            salary_to v, salary_currency v, area v, url v]"
    by (simp add: to_dict_def)
  ultimately show ?thesis by simp
qed

theorem to_dict_round_trip_witness:
  "validate_data example_A = Inr () \<and>
   (\<exists>w. from_dict (to_dict example_A) = Inr w \<and> id_num w = id_num example_A \<and>
        url w = url example_A \<and> eq_Vacancy w example_A)"
proof -
  have nn: "salary_from example_A \<noteq> PFloat NaN" "salary_to example_A \<noteq> PFloat NaN"
    by (simp_all add: example_A_def)
  from to_dict_round_trip [OF valid_example_A] obtain w where
    "from_dict (to_dict example_A) = Inr w" "id_num w = id_num example_A"
    "url w = url example_A"
    "eq_Vacancy w example_A \<longleftrightarrow>
       salary_from example_A \<noteq> PFloat NaN \<and> salary_to example_A \<noteq> PFloat NaN"
    by blast
  with nn valid_example_A show ?thesis by blast
qed

theorem round_trip_nan_counterexample:
  "validate_data example_nan = Inr () \<and>
   from_dict (to_dict example_nan) = Inr example_nan \<and>
   \<not> eq_Vacancy example_nan example_nan"
  using valid_init_Vacancy [OF valid_example_nan]
  by (simp add: valid_example_nan from_dict_to_dict)
     (simp add: eq_Vacancy_def example_nan_def)

end
